theory Spec2Isabelle
  imports Complex_Main
begin

section \<open>Three-phase commutation scripts of the tubular linear actuator\<close>

text \<open>
  The repository holds three CircuitPython scripts, each with a class
  \<open>LinearActuator\<close>: \<^verbatim>\<open>code.py\<close> (position is an angle in radians),
  \<^verbatim>\<open>sine/code.py\<close> (position in degrees) and \<^verbatim>\<open>step_table/code.py\<close>
  (position is a fractional index into the table \<open>STEPS\<close>). The definitions below
  follow the three files; where the classes share a method name the suffixes
  \<open>_angle\<close>, \<open>_degrees\<close> and \<open>_table\<close> tell them apart.

  Python floats are modelled as the real numbers, so the rounding of binary floating
  point is not part of the model; Python integers are \<open>int\<close>. \<open>print\<close> calls have no
  effect on the state and are left out.
\<close>

subsection \<open>Hardware: six PWM outputs and the sleep calls\<close>

text \<open>
  The six module-level \<open>pwmio.PWMOut\<close> objects. Each holds one attribute that the
  scripts write, \<open>duty_cycle\<close>. Every write and every \<open>time.sleep\<close> is also
  recorded, in program order, in \<open>events\<close>, so that the order of the effects of a
  method can be stated. The range check that the \<open>pwmio\<close> library makes on a
  written duty cycle is outside of the repository and is not modelled.
\<close>

datatype pwm = pwm_ah | pwm_al | pwm_bh | pwm_bl | pwm_ch | pwm_cl

datatype event = SetDuty pwm int | Sleep real

record hardware =
  duty_cycle :: "pwm \<Rightarrow> int"
  events :: "event list"

definition set_duty :: "pwm \<Rightarrow> int \<Rightarrow> hardware \<Rightarrow> hardware" where
  "set_duty p v hw =
     hw\<lparr>duty_cycle := (duty_cycle hw)(p := v), events := events hw @ [SetDuty p v]\<rparr>"

definition sleep :: "real \<Rightarrow> hardware \<Rightarrow> hardware" where
  "sleep d hw = hw\<lparr>events := events hw @ [Sleep d]\<rparr>"

text \<open>
  The state after the module-level \<open>PWMOut(..., duty_cycle=0)\<close> constructions: all six
  duty cycles are 0 and nothing has been recorded.
\<close>

definition power_on :: hardware where
  "power_on = \<lparr>duty_cycle = (\<lambda>p. 0), events = []\<rparr>"

subsection \<open>Module constants\<close>

text \<open>
  The constants section of the scripts. \<open>PWM_MAX\<close> and \<open>DEAD_TIME\<close> appear in all
  three files, \<open>STEPS\<close> in the table script only. The methods read them as module
  globals; the model passes them as a record \<open>g\<close>, and \<open>module_constants\<close> and
  \<open>table_module_constants\<close> are the values written in the source.
\<close>

record constants =
  PWM_MAX :: int
  DEAD_TIME :: real

record table_constants = constants +
  STEPS :: "(real \<times> real \<times> real) list"

definition module_constants :: constants where
  "module_constants = \<lparr>PWM_MAX = 65535, DEAD_TIME = 1 / 1000000\<rparr>"

definition table_module_constants :: table_constants where
  "table_module_constants =
     \<lparr>PWM_MAX = 65535, DEAD_TIME = 1 / 1000000,
      STEPS =
       [(25, 0, -75), (50, 0, -50), (75, 0, -25), (100, 0, 0),
        (75, 25, 0), (50, 50, 0), (25, 75, 0), (0, 100, 0),
        (0, 75, 25), (0, 50, 50), (0, 25, 75), (0, 0, 100),
        (-25, 0, 75), (-50, 0, 50), (-75, 0, 25), (-100, 0, 0),
        (-75, -25, 0), (-50, -50, 0), (-25, -75, 0), (0, -100, 0),
        (0, -75, -25), (0, -50, -50), (0, -25, -75), (0, 0, -100)]\<rparr>"

definition NUM_STEPS :: "'a table_constants_scheme \<Rightarrow> nat" where
  "NUM_STEPS g = length (STEPS g)"

definition PHASE_ANGLE :: real where
  "PHASE_ANGLE = 2 * pi / 3"

definition PHASE_OFFSET :: real where
  "PHASE_OFFSET = 2 * pi / 3"

definition DEGREE_TO_RADIAN_MULTIPLIER :: real where
  "DEGREE_TO_RADIAN_MULTIPLIER = pi / 180"

definition DIRECTION_FORWARDS :: int where
  "DIRECTION_FORWARDS = 1"

definition DIRECTION_BACKWARDS :: int where
  "DIRECTION_BACKWARDS = - 1"

subsection \<open>Python primitives\<close>

text \<open>\<open>int(x)\<close> on a float truncates towards zero.\<close>

definition py_int :: "real \<Rightarrow> int" where
  "py_int x = (if 0 \<le> x then \<lfloor>x\<rfloor> else \<lceil>x\<rceil>)"

datatype py_error = IndexError

text \<open>
  Subscripting a list, \<open>STEPS[idx]\<close>: a position \<open>0 .. len - 1\<close> is read directly,
  \<open>-len .. -1\<close> is read from the end of the list, and every other integer raises
  \<open>IndexError\<close>.
\<close>

definition subscript :: "'a list \<Rightarrow> int \<Rightarrow> py_error + 'a" where
  "subscript xs idx =
     (if 0 \<le> idx \<and> idx < int (length xs) then Inr (xs ! nat idx)
      else if - int (length xs) \<le> idx \<and> idx < 0 then Inr (xs ! nat (int (length xs) + idx))
      else Inl IndexError)"

subsection \<open>The actuator objects\<close>

text \<open>
  The attributes set by the three constructors. \<open>running\<close> starts as the integer
  \<open>1\<close> and is only tested for truth, so it is a boolean here; \<open>direction\<close> is
  \<open>True\<close> in \<^verbatim>\<open>code.py\<close>, which is the integer \<open>1\<close>.
\<close>

record actuator =
  running :: bool
  step_increment :: real
  direction :: int

record angle_actuator = actuator +
  angle :: real

record degrees_actuator = actuator +
  degrees :: real

record table_actuator = actuator +
  current_step :: real
  last_step :: real

subsection \<open>Methods shared by the scripts\<close>

definition output_off :: "hardware \<Rightarrow> hardware" where
  "output_off hw =
     (let hw1 = set_duty pwm_ah 0 hw;
          hw2 = set_duty pwm_al 0 hw1;
          hw3 = set_duty pwm_bh 0 hw2;
          hw4 = set_duty pwm_bl 0 hw3;
          hw5 = set_duty pwm_ch 0 hw4
      in set_duty pwm_cl 0 hw5)"

text \<open>\<open>apply_phase\<close> of \<^verbatim>\<open>code.py\<close> and \<^verbatim>\<open>sine/code.py\<close> (the same text).\<close>

definition apply_phase ::
  "'a constants_scheme \<Rightarrow> pwm \<Rightarrow> pwm \<Rightarrow> real \<Rightarrow> hardware \<Rightarrow> hardware" where
  "apply_phase g high_pwm low_pwm val hw =
     (if 0 \<le> val then
        let hw1 = set_duty low_pwm 0 hw;
            hw2 = sleep (DEAD_TIME g) hw1
        in set_duty high_pwm (py_int (val * of_int (PWM_MAX g))) hw2
      else
        let hw1 = set_duty high_pwm 0 hw;
            hw2 = sleep (DEAD_TIME g) hw1
        in set_duty low_pwm (py_int (- val * of_int (PWM_MAX g))) hw2)"

text \<open>\<open>apply_phase\<close> of \<^verbatim>\<open>step_table/code.py\<close>: the value is a percentage.\<close>

definition apply_phase_table ::
  "'a constants_scheme \<Rightarrow> pwm \<Rightarrow> pwm \<Rightarrow> real \<Rightarrow> hardware \<Rightarrow> hardware" where
  "apply_phase_table g high_pwm low_pwm val hw =
     (let multiplier = val / 100 in
      if 0 \<le> val then
        let hw1 = set_duty low_pwm 0 hw;
            hw2 = sleep (DEAD_TIME g) hw1
        in set_duty high_pwm (py_int (multiplier * of_int (PWM_MAX g))) hw2
      else
        let hw1 = set_duty high_pwm 0 hw;
            hw2 = sleep (DEAD_TIME g) hw1
        in set_duty low_pwm (py_int (- 1 * multiplier * of_int (PWM_MAX g))) hw2)"

subsection \<open>\<^verbatim>\<open>code.py\<close>: position as an angle in radians\<close>

text \<open>
  The three constructors take no arguments, read no module constant and have no
  \<open>raise\<close>: the body does not use \<open>g\<close> and the result is always \<open>Inr\<close>. The parameter
  and the result type are there so that construction can be stated for any constants
  section and compared with a construction that fails.
\<close>

definition init_angle :: "'a constants_scheme \<Rightarrow> hardware \<Rightarrow> py_error + angle_actuator \<times> hardware" where
  "init_angle g hw =
     Inr (\<lparr>running = True, step_increment = 5 / 100, direction = 1, angle = 0\<rparr>,
          output_off hw)"

text \<open>
  The two-branch wrap at the end of \<open>step\<close>. The period that the position is compared
  with and shifted by is \<open>2 * math.pi\<close>, twice the double nearest to \<open>\<pi>\<close>, a little
  below \<open>2\<pi>\<close>; \<open>math_pi\<close> is that double. The subtraction and the addition are taken
  over the reals: Python's result is the nearest double, which is the same number
  whenever the exact result is a double.
\<close>

definition math_pi :: real where
  "math_pi = 884279719003555 / 281474976710656"

definition wrap_angle :: "real \<Rightarrow> real" where
  "wrap_angle a =
     (if 2 * math_pi \<le> a then a - 2 * math_pi
      else if a < 0 then a + 2 * math_pi
      else a)"

definition step_angle :: "angle_actuator \<Rightarrow> int \<Rightarrow> angle_actuator" where
  "step_angle self dir =
     (let a = (if 0 < dir then angle self + step_increment self
               else angle self - step_increment self)
      in self\<lparr>angle := wrap_angle a\<rparr>)"

definition phases_angle :: "real \<Rightarrow> real \<times> real \<times> real" where
  "phases_angle a = (cos a, cos (a - PHASE_ANGLE), cos (a + PHASE_ANGLE))"

definition update_angle :: "'a constants_scheme \<Rightarrow> angle_actuator \<Rightarrow> hardware \<Rightarrow> hardware" where
  "update_angle g self hw =
     (if \<not> running self then output_off hw
      else
        (case phases_angle (angle self) of (phase_a, phase_b, phase_c) \<Rightarrow>
           let hw1 = apply_phase g pwm_ah pwm_al phase_a hw;
               hw2 = apply_phase g pwm_bh pwm_bl phase_b hw1
           in apply_phase g pwm_ch pwm_cl phase_c hw2))"

definition start :: "'a actuator_scheme \<Rightarrow> 'a actuator_scheme" where
  "start self = self\<lparr>running := True\<rparr>"

definition stop :: "'a actuator_scheme \<Rightarrow> hardware \<Rightarrow> 'a actuator_scheme \<times> hardware" where
  "stop self hw = (self\<lparr>running := False\<rparr>, output_off hw)"

subsection \<open>\<^verbatim>\<open>sine/code.py\<close>: position in degrees\<close>

definition init_degrees :: "'a constants_scheme \<Rightarrow> hardware \<Rightarrow> py_error + degrees_actuator \<times> hardware" where
  "init_degrees g hw =
     Inr (\<lparr>running = True, step_increment = 5 / 10, direction = DIRECTION_FORWARDS,
           degrees = 0\<rparr>,
          output_off hw)"

definition wrap_degrees :: "real \<Rightarrow> real" where
  "wrap_degrees d = (if 360 \<le> d then d - 360 else if d < 0 then d + 360 else d)"

definition step_degrees :: "degrees_actuator \<Rightarrow> int \<Rightarrow> degrees_actuator" where
  "step_degrees self dir =
     (let d = (if dir = DIRECTION_FORWARDS then degrees self + step_increment self
               else degrees self - step_increment self)
      in self\<lparr>degrees := wrap_degrees d\<rparr>)"

definition phases_degrees :: "real \<Rightarrow> real \<times> real \<times> real" where
  "phases_degrees d =
     (let radians = d * DEGREE_TO_RADIAN_MULTIPLIER
      in (cos radians, cos (radians - PHASE_OFFSET), cos (radians + PHASE_OFFSET)))"

definition update_degrees :: "'a constants_scheme \<Rightarrow> degrees_actuator \<Rightarrow> hardware \<Rightarrow> hardware" where
  "update_degrees g self hw =
     (if \<not> running self then output_off hw
      else
        (case phases_degrees (degrees self) of (phase_a, phase_b, phase_c) \<Rightarrow>
           let hw1 = apply_phase g pwm_ah pwm_al phase_a hw;
               hw2 = apply_phase g pwm_bh pwm_bl phase_b hw1
           in apply_phase g pwm_ch pwm_cl phase_c hw2))"

subsection \<open>\<^verbatim>\<open>step_table/code.py\<close>: position as an index into \<open>STEPS\<close>\<close>

definition init_table ::
  "'a table_constants_scheme \<Rightarrow> hardware \<Rightarrow> py_error + table_actuator \<times> hardware" where
  "init_table g hw =
     Inr (\<lparr>running = True, step_increment = 1 / 10, direction = DIRECTION_FORWARDS,
           current_step = 1, last_step = - 1\<rparr>,
          output_off hw)"

text \<open>
  \<open>normalize_step\<close> is called on the float position and on the integer indices;
  the definition is polymorphic for that. On the indices the arithmetic is exact; on
  the position it is Python's float arithmetic, taken here over the reals.
\<close>

definition normalize_step :: "'a table_constants_scheme \<Rightarrow> 'b::linordered_idom \<Rightarrow> 'b" where
  "normalize_step g idx =
     (if of_nat (NUM_STEPS g) \<le> idx then idx - of_nat (NUM_STEPS g)
      else if idx < 0 then idx + of_nat (NUM_STEPS g)
      else idx)"

definition interpolate_value :: "real \<Rightarrow> real \<Rightarrow> real \<Rightarrow> real" where
  "interpolate_value from_value to_value percent =
     (if from_value = to_value then to_value
      else if percent \<le> 0 then from_value
      else if 1 \<le> percent then to_value
      else
        let diff = to_value - from_value
        in (percent * diff) + from_value)"

text \<open>
  The indices and the progress computed in \<open>step\<close> from the new position, before
  the indices are wrapped: \<open>(from_idx, to_idx, progress)\<close>. The assignments of
  \<open>0\<close> and \<open>int(self.current_step)\<close> ahead of the branch are overwritten in both
  branches and are left out.
\<close>

definition bracket :: "int \<Rightarrow> real \<Rightarrow> int \<times> int \<times> real" where
  "bracket dir cur =
     (if dir = DIRECTION_FORWARDS
      then (\<lfloor>cur\<rfloor>, \<lceil>cur\<rceil>, 1 - (of_int \<lceil>cur\<rceil> - cur))
      else (\<lceil>cur\<rceil>, \<lfloor>cur\<rfloor>, 1 - (cur - of_int \<lfloor>cur\<rfloor>)))"

text \<open>The phase values that \<open>step\<close> computes at the position \<open>cur\<close>.\<close>

definition phase_values ::
  "'a table_constants_scheme \<Rightarrow> int \<Rightarrow> real \<Rightarrow> py_error + real \<times> real \<times> real" where
  "phase_values g dir cur =
     (case bracket dir cur of (from_idx0, to_idx0, progress) \<Rightarrow>
        let to_idx = normalize_step g to_idx0;
            from_idx = normalize_step g from_idx0
        in (case subscript (STEPS g) from_idx of
              Inl e \<Rightarrow> Inl e
            | Inr (from_a, from_b, from_c) \<Rightarrow>
                (case subscript (STEPS g) to_idx of
                   Inl e \<Rightarrow> Inl e
                 | Inr (to_a, to_b, to_c) \<Rightarrow>
                     Inr (interpolate_value from_a to_a progress,
                          interpolate_value from_b to_b progress,
                          interpolate_value from_c to_c progress))))"

definition step_table ::
  "'a table_constants_scheme \<Rightarrow> table_actuator \<Rightarrow> hardware
     \<Rightarrow> py_error + table_actuator \<times> hardware" where
  "step_table g self hw =
     (if \<not> running self then Inr (self, output_off hw)
      else
        let self1 = self\<lparr>last_step := current_step self\<rparr>;
            cur = (if direction self1 = DIRECTION_FORWARDS
                   then current_step self1 + step_increment self1
                   else current_step self1 - step_increment self1);
            self2 = self1\<lparr>current_step := normalize_step g cur\<rparr>
        in (case phase_values g (direction self2) (current_step self2) of
              Inl e \<Rightarrow> Inl e
            | Inr (phase_a, phase_b, phase_c) \<Rightarrow>
                (let hw1 = apply_phase_table g pwm_ah pwm_al phase_a hw;
                     hw2 = apply_phase_table g pwm_bh pwm_bl phase_b hw1
                 in Inr (self2, apply_phase_table g pwm_ch pwm_cl phase_c hw2))))"


subsection \<open>Reading the record of effects\<close>

text \<open>
  \<open>dead_time_ok D high low\<close> replays a record of effects for the two outputs of one
  phase. Its state is the last duty cycle written to the high and to the low side and,
  for each side, the time slept since that side was last written to 0 (counted from the
  start of the record when there was no such write). A write that turns a side on
  (a duty cycle other than 0) is accepted only when the other side is at 0 and at least
  \<open>D\<close> has been slept since the other side was written to 0. Writes to other outputs do
  not matter.
\<close>

fun dead_time_ok :: "real \<Rightarrow> pwm \<Rightarrow> pwm \<Rightarrow> int \<times> int \<times> real \<times> real \<Rightarrow> event list \<Rightarrow> bool" where
  "dead_time_ok D high low (dh, dl, wh, wl) [] = True"
| "dead_time_ok D high low (dh, dl, wh, wl) (Sleep d # es) =
     dead_time_ok D high low (dh, dl, wh + d, wl + d) es"
| "dead_time_ok D high low (dh, dl, wh, wl) (SetDuty p v # es) =
     (if p = high then
        (if v = 0 then dead_time_ok D high low (0, dl, 0, wl) es
         else dl = 0 \<and> D \<le> wl \<and> dead_time_ok D high low (v, dl, wh, wl) es)
      else if p = low then
        (if v = 0 then dead_time_ok D high low (dh, 0, wh, 0) es
         else dh = 0 \<and> D \<le> wh \<and> dead_time_ok D high low (dh, v, wh, wl) es)
      else dead_time_ok D high low (dh, dl, wh, wl) es)"

text \<open>
  \<open>never_both_on high low\<close> replays the writes and checks, after every effect, that
  one of the two sides is at duty cycle 0.
\<close>

fun never_both_on :: "pwm \<Rightarrow> pwm \<Rightarrow> int \<times> int \<Rightarrow> event list \<Rightarrow> bool" where
  "never_both_on high low (dh, dl) [] = True"
| "never_both_on high low (dh, dl) (Sleep d # es) =
     ((dh = 0 \<or> dl = 0) \<and> never_both_on high low (dh, dl) es)"
| "never_both_on high low (dh, dl) (SetDuty p v # es) =
     (if p = high then (v = 0 \<or> dl = 0) \<and> never_both_on high low (v, dl) es
      else if p = low then (dh = 0 \<or> v = 0) \<and> never_both_on high low (dh, v) es
      else (dh = 0 \<or> dl = 0) \<and> never_both_on high low (dh, dl) es)"

text \<open>A sequence of \<open>apply_phase\<close> calls on one phase, one call for each value.\<close>

definition apply_all ::
  "'a constants_scheme \<Rightarrow> pwm \<Rightarrow> pwm \<Rightarrow> real list \<Rightarrow> hardware \<Rightarrow> hardware" where
  "apply_all g high_pwm low_pwm vals hw = fold (apply_phase g high_pwm low_pwm) vals hw"

definition apply_all_table ::
  "'a constants_scheme \<Rightarrow> pwm \<Rightarrow> pwm \<Rightarrow> real list \<Rightarrow> hardware \<Rightarrow> hardware" where
  "apply_all_table g high_pwm low_pwm vals hw =
     fold (apply_phase_table g high_pwm low_pwm) vals hw"

section \<open>Properties\<close>

subsection \<open>Wrapping a position into one cycle\<close>

lemma NUM_STEPS_table_module [simp]: "NUM_STEPS table_module_constants = 24"
  by (simp add: NUM_STEPS_def table_module_constants_def)




subsection \<open>The lookup indices of the table script\<close>

text \<open>Indices of a position inside the table.\<close>

lemma floor_index:
  assumes "0 \<le> p" and "p < real (NUM_STEPS g)"
  shows "0 \<le> \<lfloor>p\<rfloor>" and "\<lfloor>p\<rfloor> < int (NUM_STEPS g)"
  using assms by (simp_all add: floor_less_iff)

lemma ceiling_index:
  assumes "0 \<le> p" and "p < real (NUM_STEPS g)"
  shows "0 \<le> \<lceil>p\<rceil>" and "\<lceil>p\<rceil> \<le> int (NUM_STEPS g)"
  using assms by (simp_all add: ceiling_le_iff)

lemma normalize_floor_index:
  assumes "0 \<le> p" and "p < real (NUM_STEPS g)"
  shows "0 \<le> normalize_step g \<lfloor>p\<rfloor> \<and> normalize_step g \<lfloor>p\<rfloor> < int (NUM_STEPS g)"
  using floor_index [OF assms] by (simp add: normalize_step_def)

lemma normalize_ceiling_index:
  assumes "0 \<le> p" and "p < real (NUM_STEPS g)"
  shows "0 \<le> normalize_step g \<lceil>p\<rceil> \<and> normalize_step g \<lceil>p\<rceil> < int (NUM_STEPS g)"
proof -
  have "0 < real (NUM_STEPS g)"
    using assms by linarith
  then have "0 < int (NUM_STEPS g)"
    by simp
  show ?thesis
  proof (cases "int (NUM_STEPS g) \<le> \<lceil>p\<rceil>")
    case True
    with ceiling_index(2) [OF assms] have "\<lceil>p\<rceil> = int (NUM_STEPS g)"
      by simp
    then have "normalize_step g \<lceil>p\<rceil> = 0"
      by (simp add: normalize_step_def)
    with \<open>0 < int (NUM_STEPS g)\<close> show ?thesis
      by simp
  next
    case False
    with ceiling_index(1) [OF assms] show ?thesis
      by (simp add: normalize_step_def)
  qed
qed

lemma subscript_in_range:
  assumes "0 \<le> i" and "i < int (length xs)"
  shows "subscript xs i = Inr (xs ! nat i)"
  using assms by (simp add: subscript_def)

lemma phase_values_defined:
  assumes "0 \<le> p" and "p < real (NUM_STEPS g)"
  shows "\<exists>r. phase_values g dir p = Inr r"
proof -
  note f = normalize_floor_index [OF assms] and c = normalize_ceiling_index [OF assms]
  have gf: "subscript (STEPS g) (normalize_step g \<lfloor>p\<rfloor>)
              = Inr (STEPS g ! nat (normalize_step g \<lfloor>p\<rfloor>))"
    using f by (intro subscript_in_range) (simp_all add: NUM_STEPS_def)
  have gc: "subscript (STEPS g) (normalize_step g \<lceil>p\<rceil>)
              = Inr (STEPS g ! nat (normalize_step g \<lceil>p\<rceil>))"
    using c by (intro subscript_in_range) (simp_all add: NUM_STEPS_def)
  show ?thesis
    by (simp add: phase_values_def bracket_def Let_def gf gc split: prod.splits)
qed

text \<open>
  Claim C10: for a position \<open>p\<close> of the table script with \<open>0 \<le> p < NUM_STEPS\<close>, the
  two indices that \<open>step\<close> looks up (floor and ceiling of \<open>p\<close>, each passed through
  \<open>normalize_step\<close>) lie in \<open>0 .. NUM_STEPS - 1\<close> for either direction, and both reads
  of \<open>STEPS\<close> succeed.
\<close>

theorem C10_lookup_indices_in_table:
  assumes "0 \<le> p" and "p < real (NUM_STEPS g)"
  shows "(case bracket dir p of (from_idx, to_idx, progress) \<Rightarrow>
            0 \<le> normalize_step g from_idx \<and> normalize_step g from_idx \<le> int (NUM_STEPS g) - 1
          \<and> 0 \<le> normalize_step g to_idx \<and> normalize_step g to_idx \<le> int (NUM_STEPS g) - 1)
         \<and> (\<exists>r. phase_values g dir p = Inr r)"
  using normalize_floor_index [OF assms] normalize_ceiling_index [OF assms]
    phase_values_defined [OF assms, of dir]
  by (simp add: bracket_def)

theorem C10_lookup_indices_in_table_witness:
  "(0::real) \<le> 23.5 \<and> (23.5::real) < real (NUM_STEPS table_module_constants)
   \<and> (case bracket DIRECTION_FORWARDS 23.5 of (from_idx, to_idx, progress) \<Rightarrow>
          0 \<le> normalize_step table_module_constants from_idx
        \<and> normalize_step table_module_constants from_idx
            \<le> int (NUM_STEPS table_module_constants) - 1
        \<and> 0 \<le> normalize_step table_module_constants to_idx
        \<and> normalize_step table_module_constants to_idx
            \<le> int (NUM_STEPS table_module_constants) - 1)
   \<and> (\<exists>r. phase_values table_module_constants DIRECTION_FORWARDS 23.5 = Inr r)"
  using C10_lookup_indices_in_table [of "23.5" table_module_constants DIRECTION_FORWARDS]
  by simp

subsection \<open>Driving one phase\<close>

lemma duty_cycle_set_duty [simp]:
  "duty_cycle (set_duty p v hw) q = (if q = p then v else duty_cycle hw q)"
  by (simp add: set_duty_def)

lemma duty_cycle_sleep [simp]: "duty_cycle (sleep d hw) = duty_cycle hw"
  by (simp add: sleep_def)

lemma py_int_nonneg: "0 \<le> x \<Longrightarrow> py_int x = \<lfloor>x\<rfloor>"
  by (simp add: py_int_def)

lemma apply_phase_duty:
  assumes "high_pwm \<noteq> low_pwm"
  shows "duty_cycle (apply_phase g high_pwm low_pwm v hw) =
     (if 0 \<le> v
      then (duty_cycle hw)(low_pwm := 0, high_pwm := py_int (v * real_of_int (PWM_MAX g)))
      else (duty_cycle hw)(high_pwm := 0, low_pwm := py_int (- v * real_of_int (PWM_MAX g))))"
  using assms by (auto simp: apply_phase_def Let_def fun_eq_iff)

lemma apply_phase_table_duty:
  assumes "high_pwm \<noteq> low_pwm"
  shows "duty_cycle (apply_phase_table g high_pwm low_pwm v hw) =
     (if 0 \<le> v
      then (duty_cycle hw)(low_pwm := 0,
             high_pwm := py_int (v / 100 * real_of_int (PWM_MAX g)))
      else (duty_cycle hw)(high_pwm := 0,
             low_pwm := py_int (- 1 * (v / 100) * real_of_int (PWM_MAX g))))"
  using assms by (auto simp: apply_phase_table_def Let_def fun_eq_iff)

text \<open>
  Claim C3 as stated, with rounding: the duty cycle is computed with \<open>int(...)\<close>, which
  drops the fraction. For the value 0.25 the product with \<open>PWM_MAX\<close> is 16383.75; the
  high side is set to 16383, while rounding to the nearest integer gives 16384.
\<close>

theorem C3_counterexample:
  "\<not> (duty_cycle (apply_phase module_constants pwm_ah pwm_al (1 / 4) power_on) pwm_ah
        = round (1 / 4 * real_of_int (PWM_MAX module_constants)))"
  by (simp add: apply_phase_duty py_int_def round_def module_constants_def)

text \<open>
  Claim C3, amended: for every value (in particular every value in \<open>[-1, 1]\<close>; the
  table script takes a percentage and first divides it by 100) and distinct outputs of
  a phase: if the value is at least 0, the low side is set to 0 and the high side to
  the integer part (the floor) of \<open>value \<times> PWM_MAX\<close>; if it is negative, the high side
  is set to 0 and the low side to the integer part of \<open>-value \<times> PWM_MAX\<close>.
\<close>

theorem C3_apply_phase_truncates:
  assumes "high_pwm \<noteq> low_pwm" and "0 \<le> PWM_MAX g"
  shows
  "(0 \<le> v \<longrightarrow>
      duty_cycle (apply_phase g high_pwm low_pwm v hw) low_pwm = 0
    \<and> duty_cycle (apply_phase g high_pwm low_pwm v hw) high_pwm
        = \<lfloor>v * real_of_int (PWM_MAX g)\<rfloor>)
   \<and> (v < 0 \<longrightarrow>
      duty_cycle (apply_phase g high_pwm low_pwm v hw) high_pwm = 0
    \<and> duty_cycle (apply_phase g high_pwm low_pwm v hw) low_pwm
        = \<lfloor>- v * real_of_int (PWM_MAX g)\<rfloor>)
   \<and> (0 \<le> v \<longrightarrow>
      duty_cycle (apply_phase_table g high_pwm low_pwm v hw) low_pwm = 0
    \<and> duty_cycle (apply_phase_table g high_pwm low_pwm v hw) high_pwm
        = \<lfloor>v / 100 * real_of_int (PWM_MAX g)\<rfloor>)
   \<and> (v < 0 \<longrightarrow>
      duty_cycle (apply_phase_table g high_pwm low_pwm v hw) high_pwm = 0
    \<and> duty_cycle (apply_phase_table g high_pwm low_pwm v hw) low_pwm
        = \<lfloor>- (v / 100) * real_of_int (PWM_MAX g)\<rfloor>)"
proof -
  have m: "0 \<le> real_of_int (PWM_MAX g)"
    using assms(2) by simp
  have pos: "0 \<le> v \<Longrightarrow> py_int (v * real_of_int (PWM_MAX g)) = \<lfloor>v * real_of_int (PWM_MAX g)\<rfloor>"
    using m by (intro py_int_nonneg) simp
  have neg: "v < 0 \<Longrightarrow> py_int (- v * real_of_int (PWM_MAX g)) = \<lfloor>- v * real_of_int (PWM_MAX g)\<rfloor>"
    using m by (intro py_int_nonneg) (simp add: mult_nonpos_nonneg)
  have tpos: "0 \<le> v \<Longrightarrow> py_int (v / 100 * real_of_int (PWM_MAX g))
                 = \<lfloor>v / 100 * real_of_int (PWM_MAX g)\<rfloor>"
    using m by (intro py_int_nonneg) simp
  have tneg: "v < 0 \<Longrightarrow> py_int (- 1 * (v / 100) * real_of_int (PWM_MAX g))
                 = \<lfloor>- (v / 100) * real_of_int (PWM_MAX g)\<rfloor>"
    using m py_int_nonneg [of "- (v / 100) * real_of_int (PWM_MAX g)"]
    by (simp add: mult_nonpos_nonneg)
  show ?thesis
    using assms(1) pos neg tpos tneg
    by (simp add: apply_phase_duty apply_phase_table_duty)
qed

theorem C3_apply_phase_truncates_witness:
  "pwm_ah \<noteq> pwm_al \<and> 0 \<le> PWM_MAX module_constants
   \<and> duty_cycle (apply_phase module_constants pwm_ah pwm_al (1 / 4) power_on) pwm_al = 0
   \<and> duty_cycle (apply_phase module_constants pwm_ah pwm_al (1 / 4) power_on) pwm_ah = 16383
   \<and> duty_cycle (apply_phase module_constants pwm_ah pwm_al (- 1 / 2) power_on) pwm_ah = 0
   \<and> duty_cycle (apply_phase module_constants pwm_ah pwm_al (- 1 / 2) power_on) pwm_al = 32767
   \<and> duty_cycle (apply_phase_table module_constants pwm_ah pwm_al 25 power_on) pwm_al = 0
   \<and> duty_cycle (apply_phase_table module_constants pwm_ah pwm_al 25 power_on) pwm_ah = 16383
   \<and> duty_cycle (apply_phase_table module_constants pwm_ah pwm_al (- 75) power_on) pwm_ah = 0
   \<and> duty_cycle (apply_phase_table module_constants pwm_ah pwm_al (- 75) power_on) pwm_al
        = 49151"
  using C3_apply_phase_truncates [of pwm_ah pwm_al module_constants "1 / 4" power_on]
    C3_apply_phase_truncates [of pwm_ah pwm_al module_constants "- 1 / 2" power_on]
    C3_apply_phase_truncates [of pwm_ah pwm_al module_constants 25 power_on]
    C3_apply_phase_truncates [of pwm_ah pwm_al module_constants "- 75" power_on]
  by (simp add: module_constants_def)

subsection \<open>Table lookup and interpolation\<close>

lemma interpolate_value_inside:
  assumes "0 \<le> p" and "p \<le> 1"
  shows "interpolate_value f t p = f + p * (t - f)"
proof (cases "p = 0 \<or> p = 1 \<or> f = t")
  case True
  then show ?thesis
    by (auto simp: interpolate_value_def)
next
  case False
  with assms have "\<not> p \<le> 0" and "\<not> 1 \<le> p" and "f \<noteq> t"
    by auto
  then show ?thesis
    by (simp add: interpolate_value_def Let_def)
qed

lemma interpolate_value_same [simp]: "interpolate_value v v p = v"
  by (simp add: interpolate_value_def)

lemma phase_values_integral:
  assumes "0 \<le> k" and "k < int (NUM_STEPS g)"
  shows "phase_values g dir (real_of_int k) = Inr (STEPS g ! nat k)"
proof -
  have n: "normalize_step g k = k"
    using assms by (simp add: normalize_step_def)
  have s: "subscript (STEPS g) k = Inr (STEPS g ! nat k)"
    using assms by (intro subscript_in_range) (simp_all add: NUM_STEPS_def)
  obtain a b c where r: "STEPS g ! nat k = (a, b, c)"
    by (cases "STEPS g ! nat k")
  show ?thesis
    by (simp add: phase_values_def bracket_def Let_def n s r)
qed

text \<open>
  Claim C5 as stated, for every progress: outside of \<open>[0, 1]\<close> the result is not the
  linear formula. From 0 to 10 with progress 2 the formula gives 20; the function
  returns 10.
\<close>

theorem C5_counterexample:
  "interpolate_value 0 10 2 \<noteq> 0 + 2 * (10 - 0)"
  by (simp add: interpolate_value_def)

text \<open>
  Claim C5, amended: for every \<open>from_value\<close> and \<open>to_value\<close> and every progress in
  \<open>[0, 1]\<close>, \<open>interpolate_value\<close> returns \<open>from_value + progress \<times> (to_value - from_value)\<close>;
  a progress of 0 or less returns \<open>from_value\<close> and a progress of 1 or more returns
  \<open>to_value\<close>; equal \<open>from_value\<close> and \<open>to_value\<close> return that value for any progress.
  Consequently the phase values at an integral position \<open>k\<close> with \<open>0 \<le> k < NUM_STEPS\<close>
  are row \<open>k\<close> of the table, unchanged, for either direction.
\<close>

theorem C5_interpolation_clamped:
  "(0 \<le> p \<and> p \<le> 1 \<longrightarrow> interpolate_value f t p = f + p * (t - f))
   \<and> (p \<le> 0 \<longrightarrow> interpolate_value f t p = f)
   \<and> (1 \<le> p \<longrightarrow> interpolate_value f t p = t)
   \<and> interpolate_value f t 0 = f
   \<and> interpolate_value f t 1 = t
   \<and> interpolate_value v v p = v
   \<and> (0 \<le> k \<and> k < int (NUM_STEPS g)
        \<longrightarrow> phase_values g dir (real_of_int k) = Inr (STEPS g ! nat k))"
  using interpolate_value_inside [of p f t] phase_values_integral [of k g dir]
  by (auto simp: interpolate_value_def)

theorem C5_interpolation_clamped_witness:
  "(0::real) \<le> 1 / 10 \<and> (1 / 10 :: real) \<le> 1
   \<and> interpolate_value 25 50 (1 / 10) = 25 + 1 / 10 * (50 - 25)
   \<and> (- 1 :: real) \<le> 0 \<and> interpolate_value 0 10 (- 1) = 0
   \<and> (1::real) \<le> 2 \<and> interpolate_value 0 10 2 = 10
   \<and> (0::int) \<le> 1 \<and> 1 < int (NUM_STEPS table_module_constants)
   \<and> phase_values table_module_constants DIRECTION_FORWARDS (real_of_int 1) = Inr (50, 0, - 50)
   \<and> phase_values table_module_constants DIRECTION_BACKWARDS (real_of_int 1) = Inr (50, 0, - 50)"
proof -
  have r: "STEPS table_module_constants ! nat 1 = (50, 0, - 50)"
    by (simp add: table_module_constants_def)
  show ?thesis
    using r
      C5_interpolation_clamped
        [of "1 / 10" 25 50 0 1 table_module_constants DIRECTION_FORWARDS]
      C5_interpolation_clamped
        [of "- 1" 0 10 0 1 table_module_constants DIRECTION_BACKWARDS]
      C5_interpolation_clamped
        [of 2 0 10 0 1 table_module_constants DIRECTION_BACKWARDS]
    by simp
qed

lemma ceiling_tenth: "\<lceil>1 / 10 :: real\<rceil> = 1"
  by (simp add: ceiling_eq_iff)

text \<open>
  Claim C6: in the table script the indices and the progress depend on the direction.
  Forwards: \<open>from_idx\<close> is the floor and \<open>to_idx\<close> the ceiling of the position, and the
  progress is \<open>1 - (to_idx - position)\<close>. Backwards: \<open>from_idx\<close> is the ceiling and
  \<open>to_idx\<close> the floor, and the progress is \<open>1 - (position - to_idx)\<close>. Forwards at
  position 0.1, between rows \<open>(25, 0, -75)\<close> and \<open>(50, 0, -50)\<close>, the progress is 0.1
  and the phase values are \<open>(27.5, 0, -72.5)\<close>. One running \<open>step\<close> forwards from
  position 0 with the increment 0.1 arrives there and writes the duty cycles of these
  values.
\<close>

theorem C6_direction_aware_bracket:
  "bracket DIRECTION_FORWARDS p = (\<lfloor>p\<rfloor>, \<lceil>p\<rceil>, 1 - (real_of_int \<lceil>p\<rceil> - p))
   \<and> bracket DIRECTION_BACKWARDS p = (\<lceil>p\<rceil>, \<lfloor>p\<rfloor>, 1 - (p - real_of_int \<lfloor>p\<rfloor>))
   \<and> bracket DIRECTION_FORWARDS (1 / 10) = (0, 1, 1 / 10)
   \<and> subscript (STEPS table_module_constants) 0 = Inr (25, 0, - 75)
   \<and> subscript (STEPS table_module_constants) 1 = Inr (50, 0, - 50)
   \<and> phase_values table_module_constants DIRECTION_FORWARDS (1 / 10)
        = Inr (55 / 2, 0, - (145 / 2))
   \<and> (case step_table table_module_constants
               \<lparr>running = True, step_increment = 1 / 10, direction = DIRECTION_FORWARDS,
                 current_step = 0, last_step = - 1\<rparr> power_on of
         Inl e \<Rightarrow> False
       | Inr (self', hw') \<Rightarrow>
           current_step self' = 1 / 10
         \<and> duty_cycle hw' pwm_ah = 18022 \<and> duty_cycle hw' pwm_al = 0
         \<and> duty_cycle hw' pwm_bh = 0 \<and> duty_cycle hw' pwm_bl = 0
         \<and> duty_cycle hw' pwm_ch = 0 \<and> duty_cycle hw' pwm_cl = 47512)"
proof -
  have e: "(case step_table table_module_constants
               \<lparr>running = True, step_increment = 1 / 10, direction = DIRECTION_FORWARDS,
                 current_step = 0, last_step = - 1\<rparr> power_on of
         Inl e \<Rightarrow> False
       | Inr (self', hw') \<Rightarrow>
           current_step self' = 1 / 10
         \<and> duty_cycle hw' pwm_ah = 18022 \<and> duty_cycle hw' pwm_al = 0
         \<and> duty_cycle hw' pwm_bh = 0 \<and> duty_cycle hw' pwm_bl = 0
         \<and> duty_cycle hw' pwm_ch = 0 \<and> duty_cycle hw' pwm_cl = 47512)"
    by code_simp
  have b: "bracket DIRECTION_FORWARDS (1 / 10) = (0, 1, 1 / 10)"
    by (simp add: bracket_def ceiling_tenth)
  have s0: "subscript (STEPS table_module_constants) 0 = Inr (25, 0, - 75)"
    by (simp add: subscript_def table_module_constants_def)
  have s1: "subscript (STEPS table_module_constants) 1 = Inr (50, 0, - 50)"
    by (simp add: subscript_def table_module_constants_def)
  have n0: "normalize_step table_module_constants (0::int) = 0"
    and n1: "normalize_step table_module_constants (1::int) = 1"
    by (simp_all add: normalize_step_def)
  have v: "phase_values table_module_constants DIRECTION_FORWARDS (1 / 10)
        = Inr (55 / 2, 0, - (145 / 2))"
    by (simp add: phase_values_def b n0 n1 s0 s1 interpolate_value_def Let_def)
  have f: "bracket DIRECTION_FORWARDS p = (\<lfloor>p\<rfloor>, \<lceil>p\<rceil>, 1 - (real_of_int \<lceil>p\<rceil> - p))"
    by (simp add: bracket_def)
  have k: "bracket DIRECTION_BACKWARDS p = (\<lceil>p\<rceil>, \<lfloor>p\<rfloor>, 1 - (p - real_of_int \<lfloor>p\<rfloor>))"
    by (simp add: bracket_def DIRECTION_FORWARDS_def DIRECTION_BACKWARDS_def)
  from f k b s0 s1 v e show ?thesis
    by blast
qed

subsection \<open>Cosine phases\<close>

lemma cos_bounds: "- 1 \<le> cos (x::real) \<and> cos x \<le> 1"
  by simp

text \<open>
  Claim C7: at every angle the phase values of the angle script are \<open>cos(angle)\<close>,
  \<open>cos(angle - 2\<pi>/3)\<close> and \<open>cos(angle + 2\<pi>/3)\<close>, each in \<open>[-1, 1]\<close>, and at angle 0
  they are \<open>(1, -0.5, -0.5)\<close>. The degree script computes the same from
  \<open>degrees \<times> \<pi>/180\<close>. A running \<open>update\<close> passes these three values to \<open>apply_phase\<close>
  for the phases A, B and C, in this order.
\<close>

theorem C7_cosine_phases:
  "phases_angle a = (cos a, cos (a - 2 * pi / 3), cos (a + 2 * pi / 3))
   \<and> (case phases_angle a of (x, y, z) \<Rightarrow>
         - 1 \<le> x \<and> x \<le> 1 \<and> - 1 \<le> y \<and> y \<le> 1 \<and> - 1 \<le> z \<and> z \<le> 1)
   \<and> phases_angle 0 = (1, - (1 / 2), - (1 / 2))
   \<and> phases_degrees d
        = (cos (d * (pi / 180)), cos (d * (pi / 180) - 2 * pi / 3),
           cos (d * (pi / 180) + 2 * pi / 3))
   \<and> (case phases_degrees d of (x, y, z) \<Rightarrow>
         - 1 \<le> x \<and> x \<le> 1 \<and> - 1 \<le> y \<and> y \<le> 1 \<and> - 1 \<le> z \<and> z \<le> 1)
   \<and> phases_degrees 0 = (1, - (1 / 2), - (1 / 2))
   \<and> update_angle g (self\<lparr>running := True\<rparr>) hw
        = apply_phase g pwm_ch pwm_cl (cos (angle self + 2 * pi / 3))
            (apply_phase g pwm_bh pwm_bl (cos (angle self - 2 * pi / 3))
               (apply_phase g pwm_ah pwm_al (cos (angle self)) hw))
   \<and> update_degrees g (dself\<lparr>running := True\<rparr>) hw
        = apply_phase g pwm_ch pwm_cl (cos (degrees dself * (pi / 180) + 2 * pi / 3))
            (apply_phase g pwm_bh pwm_bl (cos (degrees dself * (pi / 180) - 2 * pi / 3))
               (apply_phase g pwm_ah pwm_al (cos (degrees dself * (pi / 180))) hw))"
  by (simp add: phases_angle_def phases_degrees_def PHASE_ANGLE_def PHASE_OFFSET_def
      DEGREE_TO_RADIAN_MULTIPLIER_def update_angle_def update_degrees_def Let_def cos_120)

subsection \<open>Stopping\<close>

lemma duty_cycle_output_off [simp]: "duty_cycle (output_off hw) p = 0"
  by (cases p) (simp_all add: output_off_def Let_def)

lemma stop_repeated:
  "((\<lambda>(s, h). stop s h) ^^ Suc n) (self, hw) = (s', hw')
     \<Longrightarrow> s' = self\<lparr>running := False\<rparr> \<and> (\<forall>p. duty_cycle hw' p = 0)"
proof (induction n arbitrary: s' hw')
  case 0
  then show ?case by (auto simp: stop_def)
next
  case (Suc n)
  obtain s1 h1 where m: "((\<lambda>(s, h). stop s h) ^^ Suc n) (self, hw) = (s1, h1)"
    by (cases "((\<lambda>(s, h). stop s h) ^^ Suc n) (self, hw)")
  with Suc.IH have "s1 = self\<lparr>running := False\<rparr>"
    by blast
  moreover from Suc.prems m have "stop s1 h1 = (s', hw')"
    by simp
  ultimately show ?case
    by (auto simp: stop_def)
qed

lemma update_angle_stopped:
  assumes "\<not> running self"
  shows "duty_cycle ((update_angle g self ^^ Suc n) hw) p = 0"
  using assms by (simp add: update_angle_def)

lemma update_degrees_stopped:
  assumes "\<not> running self"
  shows "duty_cycle ((update_degrees g self ^^ Suc n) hw) p = 0"
  using assms by (simp add: update_degrees_def)

text \<open>
  Claim C9: \<open>stop\<close>, called once or more, sets \<open>running\<close> to false, changes nothing
  else of the actuator and leaves all six duty cycles at 0. A tick in the stopped
  state (\<open>update\<close> in the angle and degree scripts, \<open>step\<close> in the table script),
  called once or more, leaves all six duty cycles at 0; it calls \<open>output_off\<close> and
  does not change the actuator.
\<close>

theorem C9_stop_idempotent:
  "(case ((\<lambda>(s, h). stop s h) ^^ Suc n) (self, hw) of (self', hw') \<Rightarrow>
       \<not> running self' \<and> self' = self\<lparr>running := False\<rparr> \<and> (\<forall>p. duty_cycle hw' p = 0))
   \<and> (\<not> running a \<longrightarrow> (\<forall>p. duty_cycle ((update_angle g a ^^ Suc n) hw) p = 0))
   \<and> (\<not> running d \<longrightarrow> (\<forall>p. duty_cycle ((update_degrees g d ^^ Suc n) hw) p = 0))
   \<and> (\<not> running t \<longrightarrow> step_table gt t hw = Inr (t, output_off hw))
   \<and> (\<forall>p. duty_cycle (output_off hw) p = 0)"
proof -
  obtain s' hw' where m: "((\<lambda>(s, h). stop s h) ^^ Suc n) (self, hw) = (s', hw')"
    by (cases "((\<lambda>(s, h). stop s h) ^^ Suc n) (self, hw)")
  from stop_repeated [OF m] m
  have 1: "case ((\<lambda>(s, h). stop s h) ^^ Suc n) (self, hw) of (self', hw') \<Rightarrow>
       \<not> running self' \<and> self' = self\<lparr>running := False\<rparr> \<and> (\<forall>p. duty_cycle hw' p = 0)"
    by simp
  have 2: "\<not> running a \<longrightarrow> (\<forall>p. duty_cycle ((update_angle g a ^^ Suc n) hw) p = 0)"
    using update_angle_stopped by blast
  have 3: "\<not> running d \<longrightarrow> (\<forall>p. duty_cycle ((update_degrees g d ^^ Suc n) hw) p = 0)"
    using update_degrees_stopped by blast
  have 4: "\<not> running t \<longrightarrow> step_table gt t hw = Inr (t, output_off hw)"
    by (simp add: step_table_def)
  from 1 2 3 4 show ?thesis
    by simp
qed


theorem C9_stop_idempotent_witness:
  "(let a = \<lparr>running = False, step_increment = 5 / 100, direction = 1, angle = 1\<rparr>;
        d = \<lparr>running = False, step_increment = 5 / 10, direction = 1, degrees = 90\<rparr>;
        t = \<lparr>running = False, step_increment = 1 / 10, direction = 1,
             current_step = 1, last_step = - 1\<rparr>;
        hw = set_duty pwm_ah 65535 power_on
    in \<not> running a \<and> \<not> running d \<and> \<not> running t
       \<and> (\<forall>p. duty_cycle ((update_angle module_constants a ^^ Suc 2) hw) p = 0)
       \<and> (\<forall>p. duty_cycle ((update_degrees module_constants d ^^ Suc 2) hw) p = 0)
       \<and> step_table table_module_constants t hw = Inr (t, output_off hw)
       \<and> (\<forall>p. duty_cycle (output_off hw) p = 0))"
  using C9_stop_idempotent
    [where n = 2
       and self = "\<lparr>running = False, step_increment = 5 / 100, direction = 1, angle = 1\<rparr>"
       and hw = "set_duty pwm_ah 65535 power_on"
       and a = "\<lparr>running = False, step_increment = 5 / 100, direction = 1, angle = 1\<rparr>"
       and g = module_constants
       and d = "\<lparr>running = False, step_increment = 5 / 10, direction = 1, degrees = 90\<rparr>"
       and t = "\<lparr>running = False, step_increment = 1 / 10, direction = 1,
                 current_step = 1, last_step = - 1\<rparr>"
       and gt = table_module_constants]
  by (simp add: Let_def split: prod.splits)

subsection \<open>Construction\<close>

text \<open>
  Claim C4 as stated: the constructors make no check. With \<open>PWM_MAX = 0\<close>,
  \<open>DEAD_TIME = 0\<close> and an empty table, construction still returns an actuator.
\<close>

theorem C4_counterexample:
  "PWM_MAX \<lparr>PWM_MAX = 0, DEAD_TIME = 0, STEPS = []\<rparr> \<le> 0
   \<and> DEAD_TIME \<lparr>PWM_MAX = 0, DEAD_TIME = 0, STEPS = []\<rparr> \<le> 0
   \<and> STEPS \<lparr>PWM_MAX = 0, DEAD_TIME = 0, STEPS = []\<rparr> = []
   \<and> \<not> isl (init_table \<lparr>PWM_MAX = 0, DEAD_TIME = 0, STEPS = []\<rparr> power_on)
   \<and> \<not> isl (init_angle \<lparr>PWM_MAX = 0, DEAD_TIME = 0\<rparr> power_on)
   \<and> \<not> isl (init_degrees \<lparr>PWM_MAX = 0, DEAD_TIME = 0\<rparr> power_on)"
  by (simp add: init_table_def init_angle_def init_degrees_def)

text \<open>
  Claim C4, amended: construction never fails and there is no configuration error.
  The constructors take no arguments and read no module constant; whatever the
  constants are, they return a running actuator with the fixed positive step
  increment (0.05, 0.5, 0.1) at the start position, with all six duty cycles at 0.
\<close>

theorem C4_construction_never_fails:
  "(\<exists>a hw'. init_angle g hw = Inr (a, hw') \<and> running a \<and> step_increment a = 5 / 100
       \<and> 0 < step_increment a \<and> angle a = 0 \<and> (\<forall>p. duty_cycle hw' p = 0))
   \<and> (\<exists>d hw'. init_degrees g hw = Inr (d, hw') \<and> running d \<and> step_increment d = 5 / 10
       \<and> 0 < step_increment d \<and> degrees d = 0 \<and> (\<forall>p. duty_cycle hw' p = 0))
   \<and> (\<exists>t hw'. init_table gt hw = Inr (t, hw') \<and> running t \<and> step_increment t = 1 / 10
       \<and> 0 < step_increment t \<and> current_step t = 1 \<and> (\<forall>p. duty_cycle hw' p = 0))"
  by (simp add: init_table_def init_angle_def init_degrees_def)

subsection \<open>Dead time\<close>

lemma events_apply_phase:
  "events (apply_phase g high low v hw) = events hw @
     (if 0 \<le> v
      then [SetDuty low 0, Sleep (DEAD_TIME g),
            SetDuty high (py_int (v * real_of_int (PWM_MAX g)))]
      else [SetDuty high 0, Sleep (DEAD_TIME g),
            SetDuty low (py_int (- v * real_of_int (PWM_MAX g)))])"
  by (simp add: apply_phase_def set_duty_def sleep_def Let_def)

lemma events_apply_phase_table:
  "events (apply_phase_table g high low v hw) = events hw @
     (if 0 \<le> v
      then [SetDuty low 0, Sleep (DEAD_TIME g),
            SetDuty high (py_int (v / 100 * real_of_int (PWM_MAX g)))]
      else [SetDuty high 0, Sleep (DEAD_TIME g),
            SetDuty low (py_int (- 1 * (v / 100) * real_of_int (PWM_MAX g)))])"
  by (simp add: apply_phase_table_def set_duty_def sleep_def Let_def)

lemma events_apply_all:
  "events (apply_all g high low vals hw) =
     events hw @ concat (map (\<lambda>v. events (apply_phase g high low v power_on)) vals)"
proof (induction vals arbitrary: hw)
  case Nil
  then show ?case by (simp add: apply_all_def)
next
  case (Cons v vals)
  have "events (apply_all g high low (v # vals) hw)
          = events (apply_all g high low vals (apply_phase g high low v hw))"
    by (simp add: apply_all_def)
  also have "\<dots> = events (apply_phase g high low v hw)
          @ concat (map (\<lambda>v. events (apply_phase g high low v power_on)) vals)"
    by (rule Cons.IH)
  also have "events (apply_phase g high low v hw)
          = events hw @ events (apply_phase g high low v power_on)"
    by (simp add: events_apply_phase power_on_def)
  finally show ?case by simp
qed

lemma events_apply_all_table:
  "events (apply_all_table g high low vals hw) =
     events hw @ concat (map (\<lambda>v. events (apply_phase_table g high low v power_on)) vals)"
proof (induction vals arbitrary: hw)
  case Nil
  then show ?case by (simp add: apply_all_table_def)
next
  case (Cons v vals)
  have "events (apply_all_table g high low (v # vals) hw)
          = events (apply_all_table g high low vals (apply_phase_table g high low v hw))"
    by (simp add: apply_all_table_def)
  also have "\<dots> = events (apply_phase_table g high low v hw)
          @ concat (map (\<lambda>v. events (apply_phase_table g high low v power_on)) vals)"
    by (rule Cons.IH)
  also have "events (apply_phase_table g high low v hw)
          = events hw @ events (apply_phase_table g high low v power_on)"
    by (simp add: events_apply_phase_table power_on_def)
  finally show ?case by simp
qed

text \<open>One switch-over: a side is written to 0, then the sleep, then the other side.\<close>

lemma dead_time_ok_switch_over:
  assumes "a \<noteq> b" and "{a, b} = {high, low}"
  shows "\<exists>st'. dead_time_ok D high low st ([SetDuty a 0, Sleep D, SetDuty b x] @ es)
                 = dead_time_ok D high low st' es"
proof -
  obtain dh dl wh wl where st: "st = (dh, dl, wh, wl)"
    by (cases st)
  from assms have "(a = low \<and> b = high) \<or> (a = high \<and> b = low)"
    by (auto simp: doubleton_eq_iff)
  then show ?thesis
  proof
    assume "a = low \<and> b = high"
    with assms(1) st show ?thesis
      by (cases "x = 0") (auto intro: exI)
  next
    assume "a = high \<and> b = low"
    with assms(1) st show ?thesis
      by (cases "x = 0") (auto intro: exI)
  qed
qed

lemma never_both_on_switch_over:
  assumes "a \<noteq> b" and "{a, b} = {high, low}"
  shows "\<exists>st'. never_both_on high low st ([SetDuty a 0, Sleep D, SetDuty b x] @ es)
                 = never_both_on high low st' es"
proof -
  obtain dh dl where st: "st = (dh, dl)"
    by (cases st)
  from assms have "(a = low \<and> b = high) \<or> (a = high \<and> b = low)"
    by (auto simp: doubleton_eq_iff)
  then show ?thesis
  proof
    assume "a = low \<and> b = high"
    with assms(1) st show ?thesis
      by (auto intro: exI)
  next
    assume "a = high \<and> b = low"
    with assms(1) st show ?thesis
      by (auto intro: exI)
  qed
qed

lemma switch_overs_ok:
  assumes "high \<noteq> low"
    and "\<And>v. \<exists>a b x. f v = [SetDuty a 0, Sleep D, SetDuty b x] \<and> a \<noteq> b \<and> {a, b} = {high, low}"
  shows "dead_time_ok D high low st (concat (map f vals))"
    and "never_both_on high low st2 (concat (map f vals))"
proof (induction vals arbitrary: st st2)
  case Nil
  { case 1 show ?case by (cases st) simp }
  { case 2 show ?case by (cases st2) simp }
next
  case (Cons v vals)
  obtain a b x where f: "f v = [SetDuty a 0, Sleep D, SetDuty b x]"
    and ab: "a \<noteq> b" "{a, b} = {high, low}"
    using assms(2) by blast
  { case 1
    obtain st' where "dead_time_ok D high low st (f v @ concat (map f vals))
                     = dead_time_ok D high low st' (concat (map f vals))"
      unfolding f using dead_time_ok_switch_over [OF ab] by blast
    with Cons.IH(1) show ?case by simp }
  { case 2
    obtain st' where "never_both_on high low st2 (f v @ concat (map f vals))
                     = never_both_on high low st' (concat (map f vals))"
      unfolding f using never_both_on_switch_over [OF ab] by blast
    with Cons.IH(2) show ?case by simp }
qed

lemma apply_phase_switch_over:
  assumes "high \<noteq> low"
  shows "\<exists>a b x. events (apply_phase g high low v power_on)
            = [SetDuty a 0, Sleep (DEAD_TIME g), SetDuty b x] \<and> a \<noteq> b \<and> {a, b} = {high, low}"
  using assms by (auto simp: events_apply_phase power_on_def)

lemma apply_phase_table_switch_over:
  assumes "high \<noteq> low"
  shows "\<exists>a b x. events (apply_phase_table g high low v power_on)
            = [SetDuty a 0, Sleep (DEAD_TIME g), SetDuty b x] \<and> a \<noteq> b \<and> {a, b} = {high, low}"
  using assms by (auto simp: events_apply_phase_table power_on_def)

text \<open>
  Claim C8: for any sequence of \<open>apply_phase\<close> calls on the two outputs of one phase,
  every write that turns a side on comes after a write of 0 to the other side, with
  sleeps of at least \<open>DEAD_TIME\<close> in between, and after every effect one of the two
  sides is at duty cycle 0. Time is counted by the \<open>time.sleep\<close> calls recorded between
  the writes. This holds for \<open>apply_phase\<close> of all three scripts.
\<close>

theorem C8_dead_time_before_switch_on:
  assumes "high_pwm \<noteq> low_pwm" and "events hw = []"
  shows
  "dead_time_ok (DEAD_TIME g) high_pwm low_pwm
       (duty_cycle hw high_pwm, duty_cycle hw low_pwm, 0, 0)
       (events (apply_all g high_pwm low_pwm vals hw))
   \<and> never_both_on high_pwm low_pwm (duty_cycle hw high_pwm, duty_cycle hw low_pwm)
       (events (apply_all g high_pwm low_pwm vals hw))
   \<and> dead_time_ok (DEAD_TIME g) high_pwm low_pwm
       (duty_cycle hw high_pwm, duty_cycle hw low_pwm, 0, 0)
       (events (apply_all_table g high_pwm low_pwm vals hw))
   \<and> never_both_on high_pwm low_pwm (duty_cycle hw high_pwm, duty_cycle hw low_pwm)
       (events (apply_all_table g high_pwm low_pwm vals hw))"
proof -
  let ?f = "\<lambda>v. events (apply_phase g high_pwm low_pwm v power_on)"
  let ?ft = "\<lambda>v. events (apply_phase_table g high_pwm low_pwm v power_on)"
  have s: "\<And>v. \<exists>a b x. ?f v = [SetDuty a 0, Sleep (DEAD_TIME g), SetDuty b x]
                 \<and> a \<noteq> b \<and> {a, b} = {high_pwm, low_pwm}"
    by (rule apply_phase_switch_over [OF assms(1)])
  have st: "\<And>v. \<exists>a b x. ?ft v = [SetDuty a 0, Sleep (DEAD_TIME g), SetDuty b x]
                 \<and> a \<noteq> b \<and> {a, b} = {high_pwm, low_pwm}"
    by (rule apply_phase_table_switch_over [OF assms(1)])
  note ok = switch_overs_ok [where f = ?f, OF assms(1) s]
    and okt = switch_overs_ok [where f = ?ft, OF assms(1) st]
  show ?thesis
    using assms(2) ok okt
    by (simp add: events_apply_all events_apply_all_table)
qed

theorem C8_dead_time_before_switch_on_witness:
  "pwm_ah \<noteq> pwm_al \<and> events power_on = []
   \<and> events (apply_all module_constants pwm_ah pwm_al [1, - 1 / 2] power_on)
       = [SetDuty pwm_al 0, Sleep (1 / 1000000), SetDuty pwm_ah 65535,
          SetDuty pwm_ah 0, Sleep (1 / 1000000), SetDuty pwm_al 32767]
   \<and> dead_time_ok (DEAD_TIME module_constants) pwm_ah pwm_al
       (duty_cycle power_on pwm_ah, duty_cycle power_on pwm_al, 0, 0)
       (events (apply_all module_constants pwm_ah pwm_al [1, - 1 / 2] power_on))
   \<and> never_both_on pwm_ah pwm_al (duty_cycle power_on pwm_ah, duty_cycle power_on pwm_al)
       (events (apply_all module_constants pwm_ah pwm_al [1, - 1 / 2] power_on))
   \<and> \<not> dead_time_ok (DEAD_TIME module_constants) pwm_ah pwm_al (0, 0, 0, 0)
       [SetDuty pwm_al 0, SetDuty pwm_ah 65535, SetDuty pwm_ah 0, SetDuty pwm_al 32767]
   \<and> \<not> never_both_on pwm_ah pwm_al (0, 0)
       [SetDuty pwm_ah 65535, Sleep (1 / 1000000), SetDuty pwm_al 32767]"
proof -
  have e: "events (apply_all module_constants pwm_ah pwm_al [1, - 1 / 2] power_on)
       = [SetDuty pwm_al 0, Sleep (1 / 1000000), SetDuty pwm_ah 65535,
          SetDuty pwm_ah 0, Sleep (1 / 1000000), SetDuty pwm_al 32767]"
    by (simp add: apply_all_def events_apply_phase power_on_def module_constants_def py_int_def)
  have n: "\<not> dead_time_ok (DEAD_TIME module_constants) pwm_ah pwm_al (0, 0, 0, 0)
       [SetDuty pwm_al 0, SetDuty pwm_ah 65535, SetDuty pwm_ah 0, SetDuty pwm_al 32767]"
    by (simp add: module_constants_def)
  have b: "\<not> never_both_on pwm_ah pwm_al (0, 0)
       [SetDuty pwm_ah 65535, Sleep (1 / 1000000), SetDuty pwm_al 32767]"
    by simp
  have p: "events power_on = []"
    by (simp add: power_on_def)
  from C8_dead_time_before_switch_on [of pwm_ah pwm_al power_on module_constants "[1, - 1 / 2]"]
    e n b p
  show ?thesis
    by simp
qed

end
